theory Spec2Isabelle
  imports Main "HOL-Library.Sublist"
begin

section \<open>Exceptions\<close>

text \<open>
  The exception classes the module names: \<open>ValueError\<close> (raised by the tuple unpacking
  of \<open>a, b = xs\<close>), \<open>RegistryNotLoaded\<close> and \<open>SiteVisitScheduleError\<close> (imported from
  \<open>site_visit_schedules\<close>), and \<open>VisitScheduleModelError\<close> (imported from
  \<open>visit_schedule\<close>). Each carries its message; \<open>VisitScheduleModelError\<close> also carries
  the exception it was raised \<open>from\<close> (its \<open>__cause__\<close>).

  Modelled from the spec: \<open>ScheduleNotFound\<close> is the error of
  \<open>VisitSchedule.get_schedule\<close>, whose code is not at hand; the spec says of it only that it
  is raised for a schedule name that is "not found".
\<close>

datatype exn =
    ValueError string
  | RegistryNotLoaded string
  | SiteVisitScheduleError string
  | ScheduleNotFound string
  | VisitScheduleModelError string exn

text \<open>\<open>str(e)\<close>: the message of an exception built with one argument.\<close>

fun str :: "exn \<Rightarrow> string" where
  "str (ValueError m) = m"
| "str (RegistryNotLoaded m) = m"
| "str (SiteVisitScheduleError m) = m"
| "str (ScheduleNotFound m) = m"
| "str (VisitScheduleModelError m c) = m"

text \<open>
  Modelled from the spec: its three kinds of error, a malformed path, an unavailable
  registry and an unresolvable name, which the module does not declare. The module raises
  one class, \<open>VisitScheduleModelError\<close>, for what it catches, so the kind of an error is
  read off its cause: the \<open>ValueError\<close> of the unpacking, the registry's
  \<open>RegistryNotLoaded\<close>, or a not-found error of a lookup.
\<close>

datatype error_kind = MalformedPathError | RegistryUnavailableError | ScheduleResolutionError

fun kind_of :: "exn \<Rightarrow> error_kind option" where
  "kind_of (VisitScheduleModelError m (ValueError v)) = Some MalformedPathError"
| "kind_of (VisitScheduleModelError m (RegistryNotLoaded v)) = Some RegistryUnavailableError"
| "kind_of (VisitScheduleModelError m (SiteVisitScheduleError v)) = Some ScheduleResolutionError"
| "kind_of (ScheduleNotFound v) = Some ScheduleResolutionError"
| "kind_of e = None"

section \<open>Strings\<close>

text \<open>
  \<open>s.split(sep)\<close> for a one-character separator: the segments between the separators,
  empty segments included, so the result is never empty and \<open>''.split('.')\<close> is \<open>['']\<close>.
\<close>

fun split :: "char \<Rightarrow> string \<Rightarrow> string list" where
  "split sep [] = [Nil]"
| "split sep (c # cs) =
     (if c = sep then [] # split sep cs
      else (case split sep cs of
              [] \<Rightarrow> [c # Nil]
            | w # ws \<Rightarrow> (c # w) # ws))"

text \<open>
  The unpacking \<open>a, b = xs\<close>: a list of exactly two elements gives the pair, any other
  length raises \<open>ValueError\<close> with Python's message.
\<close>

fun unpack2 :: "'a list \<Rightarrow> exn + ('a \<times> 'a)" where
  "unpack2 [] = Inl (ValueError ''not enough values to unpack (expected 2, got 0)'')"
| "unpack2 [a] = Inl (ValueError ''not enough values to unpack (expected 2, got 1)'')"
| "unpack2 [a, b] = Inr (a, b)"
| "unpack2 (a # b # c # xs) = Inl (ValueError ''too many values to unpack (expected 2)'')"

section \<open>The model instance\<close>

text \<open>
  What the mixin's methods can read of \<open>self\<close>: the class name
  (\<open>self.__class__.__name__\<close>), the option \<open>self._meta.visit_schedule_name\<close> declared on
  \<open>Meta\<close> as \<open>'visit_schedule_name.schedule_name'\<close>, and the three fields of
  \<open>VisitScheduleFieldsModelMixin\<close> and \<open>VisitScheduleModelMixin\<close> (\<open>visit_code\<close> has
  \<open>null=True\<close>).
\<close>

record model_instance =
  class_name :: string
  meta_visit_schedule_name :: string
  visit_schedule_name :: string
  schedule_name :: string
  visit_code :: "string option"

section \<open>Resolution\<close>

text \<open>
  The \<open>try\<close> block of both properties: split the \<open>Meta\<close> option on the dot and unpack
  into two names; a \<open>ValueError\<close> is re-raised as \<open>VisitScheduleModelError\<close> whose message
  is the class name, \<open>. Got \<close> and the error's text, \<open>from\<close> the \<open>ValueError\<close>.
\<close>

definition split_names :: "model_instance \<Rightarrow> exn + (string \<times> string)" where
  "split_names self =
     (case unpack2 (split CHR ''.'' (meta_visit_schedule_name self)) of
        Inl e \<Rightarrow> Inl (VisitScheduleModelError (class_name self @ ''. Got '' @ str e) e)
      | Inr names \<Rightarrow> Inr names)"

text \<open>
  The handlers around the registry call: \<open>RegistryNotLoaded\<close> and
  \<open>SiteVisitScheduleError\<close> are re-raised as \<open>VisitScheduleModelError\<close> with the message
  \<open>visit_schedule_name: '<name>'. Got <e>\<close>, \<open>from\<close> the caught error; any other exception
  passes through.
\<close>

fun wrap_registry_error :: "string \<Rightarrow> exn \<Rightarrow> exn" where
  "wrap_registry_error name (RegistryNotLoaded m) =
     VisitScheduleModelError
       (''visit_schedule_name: '' @ [CHR 0x27] @ name @ [CHR 0x27] @ ''. Got '' @ m)
       (RegistryNotLoaded m)"
| "wrap_registry_error name (SiteVisitScheduleError m) =
     VisitScheduleModelError
       (''visit_schedule_name: '' @ [CHR 0x27] @ name @ [CHR 0x27] @ ''. Got '' @ m)
       (SiteVisitScheduleError m)"
| "wrap_registry_error name e = e"

text \<open>
  The property \<open>visit_schedule\<close>. The registry's \<open>get_visit_schedule\<close> is defined outside
  this module and is a parameter here: it returns a visit schedule or raises.
\<close>

definition visit_schedule ::
  "(string \<Rightarrow> exn + 'vs) \<Rightarrow> model_instance \<Rightarrow> exn + 'vs" where
  "visit_schedule get_visit_schedule self =
     (case split_names self of
        Inl e \<Rightarrow> Inl e
      | Inr (vs_name, _) \<Rightarrow>
          (case get_visit_schedule vs_name of
             Inl e \<Rightarrow> Inl (wrap_registry_error vs_name e)
           | Inr vs \<Rightarrow> Inr vs))"

text \<open>
  The property \<open>schedule\<close>: it splits the option itself, then reads \<open>self.visit_schedule\<close>
  (which splits again) and calls \<open>get_schedule\<close> on the result, outside any \<open>try\<close>.
  \<open>VisitSchedule.get_schedule\<close> is a parameter as well.
\<close>

definition schedule ::
  "(string \<Rightarrow> exn + 'vs) \<Rightarrow> ('vs \<Rightarrow> string \<Rightarrow> exn + 's) \<Rightarrow> model_instance \<Rightarrow> exn + 's" where
  "schedule get_visit_schedule get_schedule self =
     (case split_names self of
        Inl e \<Rightarrow> Inl e
      | Inr (_, s_name) \<Rightarrow>
          (case visit_schedule get_visit_schedule self of
             Inl e \<Rightarrow> Inl e
           | Inr vs \<Rightarrow> get_schedule vs s_name))"

section \<open>The registry\<close>

text \<open>
  Modelled from the spec: the classes \<open>Visit\<close>, \<open>Schedule\<close> and \<open>VisitSchedule\<close> and the
  registry \<open>site_visit_schedules\<close> live in other modules of the package, whose code is not
  at hand. The spec describes a visit as carrying \<open>base_interval\<close>,
  \<open>base_interval_unit\<close> (a calendar unit) and an ordering position, a schedule as an
  ordered sequence of visits, a visit schedule as a collection of schedules keyed by
  schedule name, and the registry as a lookup table of visit schedules that is populated
  at startup.
\<close>

record 'u Visit =
  base_interval :: int
  base_interval_unit :: 'u
  position :: nat

record 'u Schedule =
  visits :: "'u Visit list"

record 's VisitSchedule =
  schedules :: "string \<rightharpoonup> 's"

record 's SiteVisitSchedules =
  loaded :: bool
  registry :: "string \<rightharpoonup> 's VisitSchedule"

text \<open>
  Modelled from the spec: \<open>get_visit_schedule(name)\<close> of the registry, whose code is not
  at hand, returns the visit schedule registered under the name, "raising a
  distinguishable not loaded error and a distinguishable not found error".
\<close>

definition get_visit_schedule ::
  "'s SiteVisitSchedules \<Rightarrow> string \<Rightarrow> exn + 's VisitSchedule" where
  "get_visit_schedule site name =
     (if \<not> loaded site then Inl (RegistryNotLoaded ''not loaded'')
      else (case registry site name of
              None \<Rightarrow> Inl (SiteVisitScheduleError ''not found'')
            | Some vs \<Rightarrow> Inr vs))"

text \<open>
  Modelled from the spec: \<open>VisitSchedule.get_schedule(schedule_name)\<close>, whose code is
  not at hand, returns the schedule of that name, "raising not found".
\<close>

definition get_schedule :: "'s VisitSchedule \<Rightarrow> string \<Rightarrow> exn + 's" where
  "get_schedule vs name =
     (case schedules vs name of
        None \<Rightarrow> Inl (ScheduleNotFound ''not found'')
      | Some s \<Rightarrow> Inr s)"

section \<open>Timepoints\<close>

text \<open>
  The generator \<open>timepoint_datetimes\<close>: one pair per visit of \<open>schedule.visits\<close>, in order.
  Its values are listed; \<open>self\<close> is a parameter the body never reads. The constructor
  \<open>relativedelta(**{unit: interval})\<close>, whose keyword is the visit's unit, and the addition
  of its result to a datetime belong to \<open>dateutil\<close> and are parameters.
\<close>

fun timepoint_loop ::
  "('u \<Rightarrow> int \<Rightarrow> 'rd) \<Rightarrow> ('dt \<Rightarrow> 'rd \<Rightarrow> 'dt) \<Rightarrow> 'dt \<Rightarrow> 'u Visit list \<Rightarrow> ('u Visit \<times> 'dt) list" where
  "timepoint_loop relativedelta add base_datetime [] = []"
| "timepoint_loop relativedelta add base_datetime (visit # rest) =
     (let timepoint_datetime =
            (if base_interval visit = 0 then base_datetime
             else add base_datetime
                    (relativedelta (base_interval_unit visit) (base_interval visit)))
      in (visit, timepoint_datetime) # timepoint_loop relativedelta add base_datetime rest)"

definition timepoint_datetimes ::
  "('u \<Rightarrow> int \<Rightarrow> 'rd) \<Rightarrow> ('dt \<Rightarrow> 'rd \<Rightarrow> 'dt) \<Rightarrow> model_instance \<Rightarrow> 'dt \<Rightarrow> 'u Schedule
     \<Rightarrow> ('u Visit \<times> 'dt) list" where
  "timepoint_datetimes relativedelta add self base_datetime sched =
     timepoint_loop relativedelta add base_datetime (visits sched)"

section \<open>The calendar\<close>

text \<open>
  Modelled from the spec: the datetime type and the calendar-offset utility
  (\<open>dateutil.relativedelta\<close>) are libraries outside the package. The spec asks of the
  utility "calendar-aware addition (respecting variable month/year lengths, not
  fixed-duration arithmetic)" in the unit the visit names, "days/weeks/months/years", and
  gives \<open>2024-01-31\<close> plus two months as \<open>2024-03-31\<close>. Dates are those of the proleptic
  Gregorian calendar. The spec takes the utility to accept every magnitude, and so does
  the model: every integer is a year.
\<close>

datatype calendar_unit = Years | Months | Weeks | Days

record datetime =
  year :: int
  month :: int
  day :: int
  hour :: int
  minute :: int
  second :: int
  microsecond :: int

definition isleap :: "int \<Rightarrow> bool" where
  "isleap y = (if y mod 400 = 0 then True else if y mod 100 = 0 then False else y mod 4 = 0)"

definition days_in_month :: "int \<Rightarrow> int \<Rightarrow> int" where
  "days_in_month y m =
     (if m = 2 then (if isleap y then 29 else 28)
      else if m = 4 then 30 else if m = 6 then 30 else if m = 9 then 30
      else if m = 11 then 30 else 31)"

definition valid_datetime :: "datetime \<Rightarrow> bool" where
  "valid_datetime d =
     (1 \<le> month d \<and> month d \<le> 12 \<and> 1 \<le> day d \<and> day d \<le> days_in_month (year d) (month d)
      \<and> 0 \<le> hour d \<and> hour d < 24 \<and> 0 \<le> minute d \<and> minute d < 60
      \<and> 0 \<le> second d \<and> second d < 60 \<and> 0 \<le> microsecond d \<and> microsecond d < 1000000)"

text \<open>Modelled from the spec: the order of datetimes, field by field, the year first.\<close>

definition datetime_less :: "datetime \<Rightarrow> datetime \<Rightarrow> bool" where
  "datetime_less a b =
     (if year a \<noteq> year b then year a < year b
      else if month a \<noteq> month b then month a < month b
      else if day a \<noteq> day b then day a < day b
      else if hour a \<noteq> hour b then hour a < hour b
      else if minute a \<noteq> minute b then minute a < minute b
      else if second a \<noteq> second b then second a < second b
      else microsecond a < microsecond b)"

text \<open>
  Modelled from the spec: one day forwards and one day backwards on the calendar; the time
  of day stays.
\<close>

definition next_day :: "datetime \<Rightarrow> datetime" where
  "next_day d =
     (if day d < days_in_month (year d) (month d) then d\<lparr>day := day d + 1\<rparr>
      else if month d < 12 then d\<lparr>month := month d + 1, day := 1\<rparr>
      else d\<lparr>year := year d + 1, month := 1, day := 1\<rparr>)"

definition prev_day :: "datetime \<Rightarrow> datetime" where
  "prev_day d =
     (if 1 < day d then d\<lparr>day := day d - 1\<rparr>
      else if 1 < month d then d\<lparr>month := month d - 1, day := days_in_month (year d) (month d - 1)\<rparr>
      else d\<lparr>year := year d - 1, month := 12, day := 31\<rparr>)"

definition add_days :: "datetime \<Rightarrow> int \<Rightarrow> datetime" where
  "add_days d n = (if 0 \<le> n then (next_day ^^ nat n) d else (prev_day ^^ nat (- n)) d)"

text \<open>
  Modelled from the spec: a relative delta of whole years, months and days, the offset
  "in the visit's named unit". The constructor takes one unit and
  its magnitude: weeks are seven days each, and months beyond eleven carry into years
  with the sign kept.
\<close>

record relativedelta =
  years :: int
  months :: int
  days :: int

definition relativedelta_of :: "calendar_unit \<Rightarrow> int \<Rightarrow> relativedelta" where
  "relativedelta_of unit n =
     (case unit of
        Years \<Rightarrow> \<lparr>years = n, months = 0, days = 0\<rparr>
      | Months \<Rightarrow> \<lparr>years = sgn n * (\<bar>n\<bar> div 12), months = sgn n * (\<bar>n\<bar> mod 12), days = 0\<rparr>
      | Weeks \<Rightarrow> \<lparr>years = 0, months = 0, days = 7 * n\<rparr>
      | Days \<Rightarrow> \<lparr>years = 0, months = 0, days = n\<rparr>)"

text \<open>
  Modelled from the spec: the calendar-aware addition. The years and months move the year
  and the month, the day is cut to the length of the month reached, and the days are then
  counted on the calendar.
\<close>

definition datetime_add :: "datetime \<Rightarrow> relativedelta \<Rightarrow> datetime" where
  "datetime_add d r =
     (let y = year d + years r;
          m = month d + months r;
          (y', m') = (if 12 < m then (y + 1, m - 12) else if m < 1 then (y - 1, m + 12) else (y, m))
      in add_days (d\<lparr>year := y', month := m', day := min (days_in_month y' m') (day d)\<rparr>) (days r))"

section \<open>Example data\<close>

text \<open>
  A record of class \<open>Appointment\<close> with a given path, a loaded registry that holds the visit
  schedule \<open>A\<close> with the one schedule \<open>B\<close>, a registry that is not loaded, and the datetime
  31 January 2024, 9:30.
\<close>

abbreviation appointment :: "string \<Rightarrow> model_instance" where
  "appointment path \<equiv>
     \<lparr>class_name = ''Appointment'', meta_visit_schedule_name = path,
      visit_schedule_name = ''A'', schedule_name = ''B'', visit_code = None\<rparr>"

abbreviation schedule_B :: "calendar_unit Schedule" where
  "schedule_B \<equiv> \<lparr>visits = []\<rparr>"

abbreviation visit_schedule_A :: "calendar_unit Schedule VisitSchedule" where
  "visit_schedule_A \<equiv> \<lparr>schedules = [''B'' \<mapsto> schedule_B]\<rparr>"

abbreviation site_loaded :: "calendar_unit Schedule SiteVisitSchedules" where
  "site_loaded \<equiv> \<lparr>loaded = True, registry = [''A'' \<mapsto> visit_schedule_A]\<rparr>"

abbreviation site_not_loaded :: "calendar_unit Schedule SiteVisitSchedules" where
  "site_not_loaded \<equiv> \<lparr>loaded = False, registry = Map.empty\<rparr>"

abbreviation end_of_january :: datetime where
  "end_of_january \<equiv>
     \<lparr>year = 2024, month = 1, day = 31, hour = 9, minute = 30, second = 0, microsecond = 0\<rparr>"

section \<open>Facts about splitting and unpacking\<close>

lemma split_not_Nil: "split c s \<noteq> []"
  by (induction s) (auto split: list.splits)

text \<open>A string splits into one segment more than it has separators.\<close>

lemma length_split: "length (split c s) = Suc (count_list s c)"
  by (induction s) (auto split: list.splits simp: split_not_Nil)

lemma split_no_sep: "c \<notin> set s \<Longrightarrow> split c s = [s]"
  by (induction s) auto

lemma split_append_sep: "c \<notin> set a \<Longrightarrow> split c (a @ c # b) = a # split c b"
  by (induction a) auto

lemma split_two: "c \<notin> set a \<Longrightarrow> c \<notin> set b \<Longrightarrow> split c (a @ c # b) = [a, b]"
  by (simp add: split_append_sep split_no_sep)

lemma unpack2_malformed:
  "xs \<noteq> [] \<Longrightarrow> length xs \<noteq> 2 \<Longrightarrow>
   unpack2 xs =
     Inl (ValueError (if length xs < 2 then ''not enough values to unpack (expected 2, got 1)''
                      else ''too many values to unpack (expected 2)''))"
  by (cases xs rule: unpack2.cases) auto

lemma split_names_malformed:
  assumes "length (split CHR ''.'' (meta_visit_schedule_name self)) \<noteq> 2"
  shows "split_names self =
     Inl (VisitScheduleModelError
            (class_name self @ ''. Got '' @
               (if length (split CHR ''.'' (meta_visit_schedule_name self)) < 2
                then ''not enough values to unpack (expected 2, got 1)''
                else ''too many values to unpack (expected 2)''))
            (ValueError
               (if length (split CHR ''.'' (meta_visit_schedule_name self)) < 2
                then ''not enough values to unpack (expected 2, got 1)''
                else ''too many values to unpack (expected 2)'')))"
  unfolding split_names_def
  using unpack2_malformed[OF split_not_Nil assms] by simp

lemma split_names_pair:
  assumes "split CHR ''.'' (meta_visit_schedule_name self) = [a, b]"
  shows "split_names self = Inr (a, b)"
  unfolding split_names_def using assms by simp

lemma split_names_cases:
  obtains (malformed) "length (split CHR ''.'' (meta_visit_schedule_name self)) \<noteq> 2"
  | (pair) a b where "split CHR ''.'' (meta_visit_schedule_name self) = [a, b]"
proof (cases "length (split CHR ''.'' (meta_visit_schedule_name self)) = 2")
  case True
  then obtain a b where "split CHR ''.'' (meta_visit_schedule_name self) = [a, b]"
    by (auto simp: length_Suc_conv numeral_2_eq_2)
  then show ?thesis by (rule pair)
next
  case False
  then show ?thesis by (rule malformed)
qed

section \<open>Facts about resolution\<close>

text \<open>With a path of two segments, the registry is asked for the first one only.\<close>

lemma visit_schedule_pair:
  assumes "split CHR ''.'' (meta_visit_schedule_name self) = [a, b]"
  shows "visit_schedule gvs self =
           (case gvs a of Inl e \<Rightarrow> Inl (wrap_registry_error a e) | Inr vs \<Rightarrow> Inr vs)"
  unfolding visit_schedule_def by (simp add: split_names_pair[OF assms])

lemma schedule_pair:
  assumes "split CHR ''.'' (meta_visit_schedule_name self) = [a, b]"
  shows "schedule gvs gs self =
           (case gvs a of Inl e \<Rightarrow> Inl (wrap_registry_error a e) | Inr vs \<Rightarrow> gs vs b)"
  unfolding schedule_def
  by (simp add: split_names_pair[OF assms] visit_schedule_pair[OF assms] split: sum.splits)

lemma visit_schedule_malformed:
  assumes "length (split CHR ''.'' (meta_visit_schedule_name self)) \<noteq> 2"
  shows "visit_schedule gvs self = Inl (projl (split_names self))"
  unfolding visit_schedule_def by (simp add: split_names_malformed[OF assms])

lemma schedule_malformed:
  assumes "length (split CHR ''.'' (meta_visit_schedule_name self)) \<noteq> 2"
  shows "schedule gvs gs self = Inl (projl (split_names self))"
  unfolding schedule_def by (simp add: split_names_malformed[OF assms])

section \<open>Facts about the generator\<close>

lemma length_timepoint_loop: "length (timepoint_loop rd add b vs) = length vs"
  by (induction vs) (simp_all add: Let_def)

lemma map_fst_timepoint_loop: "map fst (timepoint_loop rd add b vs) = vs"
  by (induction vs) (simp_all add: Let_def)

lemma nth_timepoint_loop:
  "i < length vs \<Longrightarrow>
   timepoint_loop rd add b vs ! i =
     (vs ! i, if base_interval (vs ! i) = 0 then b
              else add b (rd (base_interval_unit (vs ! i)) (base_interval (vs ! i))))"
proof (induction vs arbitrary: i)
  case Nil
  then show ?case by simp
next
  case (Cons v vs)
  then show ?case by (cases i) (simp_all add: Let_def)
qed

section \<open>Facts about the calendar\<close>

lemma datetime_less_trans:
  "datetime_less a b \<Longrightarrow> datetime_less b c \<Longrightarrow> datetime_less a c"
  unfolding datetime_less_def by (simp split: if_splits)

lemma prev_day_less: "datetime_less (prev_day d) d"
  unfolding datetime_less_def prev_day_def by simp

lemma funpow_prev_day_less: "0 < k \<Longrightarrow> datetime_less ((prev_day ^^ k) d) d"
proof (induction k)
  case 0
  then show ?case by simp
next
  case (Suc k)
  show ?case
  proof (cases "k = 0")
    case True
    then show ?thesis by (simp add: prev_day_less)
  next
    case False
    then have "datetime_less ((prev_day ^^ k) d) d" using Suc.IH by simp
    moreover have "datetime_less ((prev_day ^^ Suc k) d) ((prev_day ^^ k) d)"
      by (simp add: prev_day_less)
    ultimately show ?thesis by (rule datetime_less_trans[rotated])
  qed
qed

lemma add_days_negative: "n < 0 \<Longrightarrow> datetime_less (add_days d n) d"
  unfolding add_days_def by (simp add: funpow_prev_day_less)

lemma add_days_zero: "add_days d 0 = d"
  unfolding add_days_def by simp

lemma add_negative_days:
  assumes "valid_datetime d" "n < 0"
  shows "datetime_less (datetime_add d (relativedelta_of Days n)) d"
proof -
  have "datetime_add d (relativedelta_of Days n) = add_days d n"
    using assms(1) unfolding datetime_add_def relativedelta_of_def valid_datetime_def
    by (simp add: Let_def)
  then show ?thesis using assms(2) by (simp add: add_days_negative)
qed

lemma add_negative_weeks:
  assumes "valid_datetime d" "n < 0"
  shows "datetime_less (datetime_add d (relativedelta_of Weeks n)) d"
proof -
  have "datetime_add d (relativedelta_of Weeks n) = add_days d (7 * n)"
    using assms(1) unfolding datetime_add_def relativedelta_of_def valid_datetime_def
    by (simp add: Let_def)
  then show ?thesis using assms(2) by (simp add: add_days_negative)
qed

lemma add_negative_years:
  assumes "valid_datetime d" "n < 0"
  shows "datetime_less (datetime_add d (relativedelta_of Years n)) d"
  using assms unfolding datetime_add_def relativedelta_of_def valid_datetime_def datetime_less_def
  by (simp add: Let_def add_days_zero)

lemma add_negative_months:
  assumes "valid_datetime d" "n < 0"
  shows "datetime_less (datetime_add d (relativedelta_of Months n)) d"
proof -
  define q where "q = (- n) div 12"
  define r where "r = (- n) mod 12"
  have qr: "0 \<le> q" "0 \<le> r" "r < 12" "q = 0 \<longrightarrow> 0 < r"
    using assms(2) unfolding q_def r_def by (auto simp: pos_imp_zdiv_nonneg_iff)
  have rd: "relativedelta_of Months n = \<lparr>years = - q, months = - r, days = 0\<rparr>"
    using assms(2) unfolding relativedelta_of_def q_def r_def by simp
  show ?thesis
    using assms(1) qr unfolding rd datetime_add_def valid_datetime_def datetime_less_def
    by (auto simp: Let_def add_days_zero)
qed

text \<open>A negative magnitude, in any of the four units, moves a datetime backwards.\<close>

lemma add_negative:
  assumes "valid_datetime d" "n < 0"
  shows "datetime_less (datetime_add d (relativedelta_of u n)) d"
  using assms
  by (cases u)
     (simp_all add: add_negative_days add_negative_weeks add_negative_months add_negative_years)

text \<open>The example of the spec: two months after 31 January 2024 is 31 March 2024.\<close>

lemma two_months_after_end_of_january:
  "datetime_add \<lparr>year = 2024, month = 1, day = 31, hour = 0, minute = 0, second = 0, microsecond = 0\<rparr>
     (relativedelta_of Months 2)
   = \<lparr>year = 2024, month = 3, day = 31, hour = 0, minute = 0, second = 0, microsecond = 0\<rparr>"
  by (simp add: datetime_add_def relativedelta_of_def days_in_month_def add_days_zero)

section \<open>Resolving a schedule\<close>

text \<open>
  C1. For a path \<open>A.B\<close> whose two names hold no dot, when the registry returns the visit
  schedule \<open>vs\<close> for the name \<open>A\<close> and \<open>vs\<close> returns the schedule \<open>s\<close> for the name \<open>B\<close>,
  the property \<open>schedule\<close> returns \<open>s\<close>: the schedule named \<open>B\<close> inside the visit schedule
  named \<open>A\<close>.
\<close>

theorem schedule_resolves:
  assumes "CHR ''.'' \<notin> set A" and "CHR ''.'' \<notin> set B"
    and "meta_visit_schedule_name self = A @ ''.'' @ B"
    and "gvs A = Inr vs" and "gs vs B = Inr s"
  shows "schedule gvs gs self = Inr s"
proof -
  have "split CHR ''.'' (meta_visit_schedule_name self) = [A, B]"
    using assms(1-3) by (simp add: split_two)
  then show ?thesis using assms(4,5) by (simp add: schedule_pair)
qed

text \<open>
  The theorem at the path \<open>A.B\<close>, on a loaded registry that holds the visit schedule \<open>A\<close>
  with the schedule \<open>B\<close>.
\<close>

theorem schedule_resolves_witness:
  "schedule (get_visit_schedule site_loaded) get_schedule (appointment ''A.B'') = Inr schedule_B"
  using schedule_resolves[of "''A''" "''B''" "appointment ''A.B''"
      "get_visit_schedule site_loaded" visit_schedule_A get_schedule schedule_B]
  by (simp add: get_visit_schedule_def get_schedule_def)

section \<open>Malformed paths\<close>

text \<open>
  C3, as stated, at the path \<open>.\<close>: it splits into two empty segments, which the unpacking
  accepts, so the registry is asked for the empty name. On a registry that is not loaded
  the error is the wrapped \<open>RegistryNotLoaded\<close>, not the malformed-path error.
\<close>

theorem malformed_path_counterexample:
  "split CHR ''.'' ''.'' = ['''', '''']
   \<and> schedule (get_visit_schedule site_not_loaded) get_schedule (appointment ''.'')
     = Inl (VisitScheduleModelError
              (''visit_schedule_name: '' @ [CHR 0x27, CHR 0x27] @ ''. Got not loaded'')
              (RegistryNotLoaded ''not loaded''))
   \<and> kind_of (VisitScheduleModelError
              (''visit_schedule_name: '' @ [CHR 0x27, CHR 0x27] @ ''. Got not loaded'')
              (RegistryNotLoaded ''not loaded'')) = Some RegistryUnavailableError"
  by (simp add: schedule_def visit_schedule_def split_names_def get_visit_schedule_def)

text \<open>
  C3, amended. For every path that does not split into exactly two segments on the dot
  (it holds no dot, or more than one), \<open>schedule\<close> fails with \<open>VisitScheduleModelError\<close>
  raised from the \<open>ValueError\<close> of the unpacking, its message the class name followed by
  the error's text; the result is the same whatever the registry and the visit schedule
  would answer, so no lookup is made. A path with exactly one dot is not malformed, empty
  segments or not: its two segments are looked up as they are.
\<close>

theorem malformed_path_error:
  "(length (split CHR ''.'' (meta_visit_schedule_name self)) \<noteq> 2 \<longrightarrow>
      schedule gvs gs self =
        Inl (VisitScheduleModelError
               (class_name self @ ''. Got '' @
                  (if length (split CHR ''.'' (meta_visit_schedule_name self)) < 2
                   then ''not enough values to unpack (expected 2, got 1)''
                   else ''too many values to unpack (expected 2)''))
               (ValueError
                  (if length (split CHR ''.'' (meta_visit_schedule_name self)) < 2
                   then ''not enough values to unpack (expected 2, got 1)''
                   else ''too many values to unpack (expected 2)'')))
      \<and> (\<exists>e. schedule gvs gs self = Inl e \<and> kind_of e = Some MalformedPathError)
      \<and> schedule gvs' gs' self = schedule gvs gs self)
   \<and> (split CHR ''.'' (meta_visit_schedule_name self) = [A, B] \<longrightarrow>
        schedule gvs gs self =
          (case gvs A of Inl e \<Rightarrow> Inl (wrap_registry_error A e) | Inr vs \<Rightarrow> gs vs B))"
  by (simp add: schedule_malformed split_names_malformed schedule_pair)

text \<open>
  The theorem at the paths \<open>A.B.C\<close> and \<open>A\<close>, on a loaded and on an unloaded registry, and
  at the path \<open>A.\<close>, whose second segment is empty.
\<close>

theorem malformed_path_error_witness:
  "schedule (get_visit_schedule site_loaded) get_schedule (appointment ''A.B.C'')
   = Inl (VisitScheduleModelError ''Appointment. Got too many values to unpack (expected 2)''
            (ValueError ''too many values to unpack (expected 2)''))
   \<and> schedule (get_visit_schedule site_not_loaded) get_schedule (appointment ''A.B.C'')
   = Inl (VisitScheduleModelError ''Appointment. Got too many values to unpack (expected 2)''
            (ValueError ''too many values to unpack (expected 2)''))
   \<and> schedule (get_visit_schedule site_loaded) get_schedule (appointment ''A'')
   = Inl (VisitScheduleModelError ''Appointment. Got not enough values to unpack (expected 2, got 1)''
            (ValueError ''not enough values to unpack (expected 2, got 1)''))
   \<and> schedule (get_visit_schedule site_loaded) get_schedule (appointment ''A.'')
   = Inl (ScheduleNotFound ''not found'')"
  using
    malformed_path_error[of
      "appointment ''A.B.C''" "get_visit_schedule site_loaded" get_schedule
      "get_visit_schedule site_not_loaded" get_schedule "''A''" "''B''"]
    malformed_path_error[of
      "appointment ''A''" "get_visit_schedule site_loaded" get_schedule
      "get_visit_schedule site_not_loaded" get_schedule "''A''" "''B''"]
    malformed_path_error[of
      "appointment ''A.''" "get_visit_schedule site_loaded" get_schedule
      "get_visit_schedule site_not_loaded" get_schedule "''A''" "[]"]
  by (simp add: get_visit_schedule_def get_schedule_def)

section \<open>Projecting timepoints\<close>

text \<open>
  C2. For every visit of the schedule, \<open>timepoint_datetimes\<close> yields the visit paired with
  the base datetime itself when the visit's \<open>base_interval\<close> is 0, and otherwise paired with
  the base datetime plus the relative delta built from the visit's unit and interval.
\<close>

theorem timepoint_datetimes_emits:
  assumes "i < length (visits sched)"
  shows "timepoint_datetimes rd add self base sched ! i =
           (visits sched ! i,
            if base_interval (visits sched ! i) = 0 then base
            else add base (rd (base_interval_unit (visits sched ! i))
                              (base_interval (visits sched ! i))))"
  unfolding timepoint_datetimes_def using assms by (rule nth_timepoint_loop)

text \<open>
  The theorem on the calendar, from 31 January 2024 at 9:30: a visit at the baseline and a
  visit two months later.
\<close>

theorem timepoint_datetimes_emits_witness:
  "timepoint_datetimes relativedelta_of datetime_add (appointment ''A.B'') end_of_january
     \<lparr>visits = [\<lparr>base_interval = 0, base_interval_unit = Days, position = 0\<rparr>,
                \<lparr>base_interval = 2, base_interval_unit = Months, position = 1\<rparr>]\<rparr> ! 0
   = (\<lparr>base_interval = 0, base_interval_unit = Days, position = 0\<rparr>,
      end_of_january)
   \<and>
   timepoint_datetimes relativedelta_of datetime_add (appointment ''A.B'') end_of_january
     \<lparr>visits = [\<lparr>base_interval = 0, base_interval_unit = Days, position = 0\<rparr>,
                \<lparr>base_interval = 2, base_interval_unit = Months, position = 1\<rparr>]\<rparr> ! 1
   = (\<lparr>base_interval = 2, base_interval_unit = Months, position = 1\<rparr>,
      \<lparr>year = 2024, month = 3, day = 31, hour = 9, minute = 30, second = 0, microsecond = 0\<rparr>)"
  using
    timepoint_datetimes_emits[of 0
      "\<lparr>visits = [\<lparr>base_interval = 0, base_interval_unit = Days, position = 0\<rparr>,
                \<lparr>base_interval = 2, base_interval_unit = Months, position = 1\<rparr>]\<rparr>"
      relativedelta_of datetime_add
      "appointment ''A.B''" end_of_january]
    timepoint_datetimes_emits[of 1
      "\<lparr>visits = [\<lparr>base_interval = 0, base_interval_unit = Days, position = 0\<rparr>,
                \<lparr>base_interval = 2, base_interval_unit = Months, position = 1\<rparr>]\<rparr>"
      relativedelta_of datetime_add
      "appointment ''A.B''" end_of_january]
  by (simp add: datetime_add_def relativedelta_of_def days_in_month_def add_days_zero)

text \<open>
  C5. The sequence \<open>timepoint_datetimes\<close> yields is finite, has one element for each visit
  of the schedule, and its visits are the schedule's visits in the schedule's order.
\<close>

theorem timepoint_datetimes_length_order:
  "length (timepoint_datetimes rd add self base sched) = length (visits sched)
   \<and> map fst (timepoint_datetimes rd add self base sched) = visits sched"
  unfolding timepoint_datetimes_def
  by (simp add: length_timepoint_loop map_fst_timepoint_loop)

text \<open>The theorem on a schedule of three visits.\<close>

theorem timepoint_datetimes_length_order_witness:
  "length (timepoint_datetimes relativedelta_of datetime_add (appointment ''A.B'') end_of_january
     \<lparr>visits = [\<lparr>base_interval = 0, base_interval_unit = Days, position = 0\<rparr>,
                \<lparr>base_interval = 1, base_interval_unit = Weeks, position = 1\<rparr>,
                \<lparr>base_interval = 2, base_interval_unit = Months, position = 2\<rparr>]\<rparr>) = 3
   \<and> map fst (timepoint_datetimes relativedelta_of datetime_add (appointment ''A.B'') end_of_january
     \<lparr>visits = [\<lparr>base_interval = 0, base_interval_unit = Days, position = 0\<rparr>,
                \<lparr>base_interval = 1, base_interval_unit = Weeks, position = 1\<rparr>,
                \<lparr>base_interval = 2, base_interval_unit = Months, position = 2\<rparr>]\<rparr>)
     = [\<lparr>base_interval = 0, base_interval_unit = Days, position = 0\<rparr>,
        \<lparr>base_interval = 1, base_interval_unit = Weeks, position = 1\<rparr>,
        \<lparr>base_interval = 2, base_interval_unit = Months, position = 2\<rparr>]"
  using timepoint_datetimes_length_order[of relativedelta_of datetime_add
     "appointment ''A.B''"
     end_of_january
     "\<lparr>visits = [\<lparr>base_interval = 0, base_interval_unit = Days, position = 0\<rparr>,
                \<lparr>base_interval = 1, base_interval_unit = Weeks, position = 1\<rparr>,
                \<lparr>base_interval = 2, base_interval_unit = Months, position = 2\<rparr>]\<rparr>"]
  by simp

text \<open>
  C9. The sign of \<open>base_interval\<close> is not checked: for every visit whose interval is not 0,
  a negative one included, \<open>timepoint_datetimes\<close> yields the base datetime plus the relative
  delta of that interval, and for a negative interval the datetime yielded lies before
  the base datetime.
\<close>

theorem timepoint_datetimes_negative_interval:
  assumes "i < length (visits sched)"
    and "base_interval (visits sched ! i) \<noteq> 0"
    and "valid_datetime base"
  shows "timepoint_datetimes relativedelta_of datetime_add self base sched ! i =
           (visits sched ! i,
            datetime_add base (relativedelta_of (base_interval_unit (visits sched ! i))
                                               (base_interval (visits sched ! i))))
         \<and> (base_interval (visits sched ! i) < 0 \<longrightarrow>
              datetime_less (snd (timepoint_datetimes relativedelta_of datetime_add self base sched ! i))
                            base)"
proof -
  have eq: "timepoint_datetimes relativedelta_of datetime_add self base sched ! i =
           (visits sched ! i,
            datetime_add base (relativedelta_of (base_interval_unit (visits sched ! i))
                                               (base_interval (visits sched ! i))))"
    unfolding timepoint_datetimes_def using assms(1,2) by (simp add: nth_timepoint_loop)
  show ?thesis
    unfolding eq using assms(3) by (simp add: add_negative)
qed

text \<open>
  The theorem at a visit one month before the baseline of 31 March 2024: the datetime
  yielded is 29 February 2024.
\<close>

theorem timepoint_datetimes_negative_interval_witness:
  "timepoint_datetimes relativedelta_of datetime_add
     (appointment ''A.B'')
     \<lparr>year = 2024, month = 3, day = 31, hour = 9, minute = 30, second = 0, microsecond = 0\<rparr>
     \<lparr>visits = [\<lparr>base_interval = - 1, base_interval_unit = Months, position = 0\<rparr>]\<rparr> ! 0
   = (\<lparr>base_interval = - 1, base_interval_unit = Months, position = 0\<rparr>,
      \<lparr>year = 2024, month = 2, day = 29, hour = 9, minute = 30, second = 0, microsecond = 0\<rparr>)
   \<and> datetime_less
        \<lparr>year = 2024, month = 2, day = 29, hour = 9, minute = 30, second = 0, microsecond = 0\<rparr>
        \<lparr>year = 2024, month = 3, day = 31, hour = 9, minute = 30, second = 0, microsecond = 0\<rparr>"
  using timepoint_datetimes_negative_interval[of 0
     "\<lparr>visits = [\<lparr>base_interval = - 1, base_interval_unit = Months, position = 0\<rparr>]\<rparr>"
     "\<lparr>year = 2024, month = 3, day = 31, hour = 9, minute = 30, second = 0, microsecond = 0\<rparr>"
     "appointment ''A.B''"]
  by (simp add: valid_datetime_def datetime_add_def relativedelta_of_def days_in_month_def
        isleap_def add_days_zero datetime_less_def)

text \<open>
  C10. \<open>timepoint_datetimes\<close> is a function of the base datetime and the schedule alone: it
  takes no registry, and two instances, whatever their class, \<open>Meta\<close> option and fields,
  yield the same sequence for the same arguments.
\<close>

theorem timepoint_datetimes_ignores_self:
  "timepoint_datetimes rd add self1 base sched = timepoint_datetimes rd add self2 base sched"
  unfolding timepoint_datetimes_def by (rule refl)

text \<open>The theorem at two instances that differ in every field.\<close>

theorem timepoint_datetimes_ignores_self_witness:
  "timepoint_datetimes relativedelta_of datetime_add (appointment ''A.B'') end_of_january
     \<lparr>visits = [\<lparr>base_interval = 3, base_interval_unit = Years, position = 0\<rparr>]\<rparr>
   = timepoint_datetimes relativedelta_of datetime_add
     \<lparr>class_name = ''SubjectVisit'', meta_visit_schedule_name = ''X.Y'',
      visit_schedule_name = ''X'', schedule_name = ''Y'', visit_code = Some ''1000''\<rparr>
     end_of_january
     \<lparr>visits = [\<lparr>base_interval = 3, base_interval_unit = Years, position = 0\<rparr>]\<rparr>"
  by (rule timepoint_datetimes_ignores_self)

section \<open>Errors of resolution\<close>

text \<open>
  C4. With a path of two segments \<open>A.B\<close>: on a registry that is not loaded, \<open>schedule\<close>
  fails with the error raised from \<open>RegistryNotLoaded\<close>, the registry-unavailable kind; on
  a loaded registry without the name \<open>A\<close> it fails with the error raised from
  \<open>SiteVisitScheduleError\<close>, and on one whose visit schedule \<open>A\<close> has no schedule \<open>B\<close> with
  the not-found error of \<open>get_schedule\<close>, both of the unresolvable-name kind. The kinds
  differ from one another and from the malformed-path kind.
\<close>

theorem resolution_error_kinds:
  assumes "split CHR ''.'' (meta_visit_schedule_name self) = [A, B]"
  shows "(\<not> loaded site \<longrightarrow>
            schedule (get_visit_schedule site) get_schedule self =
              Inl (VisitScheduleModelError
                     (''visit_schedule_name: '' @ [CHR 0x27] @ A @ [CHR 0x27] @ ''. Got not loaded'')
                     (RegistryNotLoaded ''not loaded''))
            \<and> (\<exists>e. schedule (get_visit_schedule site) get_schedule self = Inl e
                   \<and> kind_of e = Some RegistryUnavailableError))
       \<and> (loaded site \<and> registry site A = None \<longrightarrow>
            schedule (get_visit_schedule site) get_schedule self =
              Inl (VisitScheduleModelError
                     (''visit_schedule_name: '' @ [CHR 0x27] @ A @ [CHR 0x27] @ ''. Got not found'')
                     (SiteVisitScheduleError ''not found''))
            \<and> (\<exists>e. schedule (get_visit_schedule site) get_schedule self = Inl e
                   \<and> kind_of e = Some ScheduleResolutionError))
       \<and> (loaded site \<and> registry site A = Some vs \<and> schedules vs B = None \<longrightarrow>
            schedule (get_visit_schedule site) get_schedule self = Inl (ScheduleNotFound ''not found'')
            \<and> (\<exists>e. schedule (get_visit_schedule site) get_schedule self = Inl e
                   \<and> kind_of e = Some ScheduleResolutionError))
       \<and> RegistryUnavailableError \<noteq> ScheduleResolutionError
       \<and> RegistryUnavailableError \<noteq> MalformedPathError
       \<and> ScheduleResolutionError \<noteq> MalformedPathError"
  by (simp add: schedule_pair[OF assms] get_visit_schedule_def get_schedule_def)

text \<open>
  The theorem at the path \<open>A.B\<close>: on a registry that is not loaded, on a loaded registry
  that is empty, and on a loaded registry whose visit schedule \<open>A\<close> has no schedule.
\<close>

theorem resolution_error_kinds_witness:
  "schedule (get_visit_schedule site_not_loaded) get_schedule (appointment ''A.B'')
   = Inl (VisitScheduleModelError
            (''visit_schedule_name: '' @ [CHR 0x27] @ ''A'' @ [CHR 0x27] @ ''. Got not loaded'')
            (RegistryNotLoaded ''not loaded''))
   \<and> schedule
     (get_visit_schedule
        \<lparr>loaded = True,
         registry = (Map.empty :: string \<rightharpoonup> calendar_unit Schedule VisitSchedule)\<rparr>)
     get_schedule
     (appointment ''A.B'')
   = Inl (VisitScheduleModelError
            (''visit_schedule_name: '' @ [CHR 0x27] @ ''A'' @ [CHR 0x27] @ ''. Got not found'')
            (SiteVisitScheduleError ''not found''))
   \<and> schedule
     (get_visit_schedule
        \<lparr>loaded = True,
         registry = [''A'' \<mapsto> \<lparr>schedules = (Map.empty :: string \<rightharpoonup> calendar_unit Schedule)\<rparr>]\<rparr>)
     get_schedule
     (appointment ''A.B'')
   = Inl (ScheduleNotFound ''not found'')"
  using
    resolution_error_kinds[of
      "appointment ''A.B''"
      "''A''" "''B''"
      "\<lparr>loaded = False,
         registry = (Map.empty :: string \<rightharpoonup> calendar_unit Schedule VisitSchedule)\<rparr>"
      "\<lparr>schedules = (Map.empty :: string \<rightharpoonup> calendar_unit Schedule)\<rparr>"]
    resolution_error_kinds[of
      "appointment ''A.B''"
      "''A''" "''B''"
      "\<lparr>loaded = True,
         registry = (Map.empty :: string \<rightharpoonup> calendar_unit Schedule VisitSchedule)\<rparr>"
      "\<lparr>schedules = (Map.empty :: string \<rightharpoonup> calendar_unit Schedule)\<rparr>"]
    resolution_error_kinds[of
      "appointment ''A.B''"
      "''A''" "''B''"
      "\<lparr>loaded = True,
         registry = [''A'' \<mapsto> \<lparr>schedules = (Map.empty :: string \<rightharpoonup> calendar_unit Schedule)\<rparr>]\<rparr>"
      "\<lparr>schedules = (Map.empty :: string \<rightharpoonup> calendar_unit Schedule)\<rparr>"]
  by simp

text \<open>
  C6. The property \<open>visit_schedule\<close> splits the whole path: a path that does not split into
  exactly two segments gives the malformed-path error. With two segments it asks the
  registry for the first one only: the result is the registry's answer for the first
  segment, the same for every second segment, which is never looked up.
\<close>

theorem visit_schedule_second_segment_unused:
  "(length (split CHR ''.'' (meta_visit_schedule_name self)) \<noteq> 2 \<longrightarrow>
      visit_schedule gvs self =
        Inl (VisitScheduleModelError
               (class_name self @ ''. Got '' @
                  (if length (split CHR ''.'' (meta_visit_schedule_name self)) < 2
                   then ''not enough values to unpack (expected 2, got 1)''
                   else ''too many values to unpack (expected 2)''))
               (ValueError
                  (if length (split CHR ''.'' (meta_visit_schedule_name self)) < 2
                   then ''not enough values to unpack (expected 2, got 1)''
                   else ''too many values to unpack (expected 2)''))))
   \<and> (split CHR ''.'' (meta_visit_schedule_name self) = [A, B] \<longrightarrow>
        visit_schedule gvs self =
          (case gvs A of Inl e \<Rightarrow> Inl (wrap_registry_error A e) | Inr vs \<Rightarrow> Inr vs))
   \<and> (split CHR ''.'' (meta_visit_schedule_name self) = [A, B]
        \<and> split CHR ''.'' (meta_visit_schedule_name self') = [A, B'] \<longrightarrow>
        visit_schedule gvs self' = visit_schedule gvs self)"
  by (simp add: visit_schedule_malformed split_names_malformed visit_schedule_pair)

text \<open>
  The theorem at the paths \<open>A\<close>, \<open>A.B\<close> and \<open>A.nothing\<close>, on a registry whose visit schedule
  \<open>A\<close> holds the schedule \<open>B\<close> only: the visit schedule is returned for \<open>A.nothing\<close> as well.
\<close>

theorem visit_schedule_second_segment_unused_witness:
  "visit_schedule (get_visit_schedule site_loaded) (appointment ''A'')
   = Inl (VisitScheduleModelError ''Appointment. Got not enough values to unpack (expected 2, got 1)''
            (ValueError ''not enough values to unpack (expected 2, got 1)''))
   \<and> visit_schedule (get_visit_schedule site_loaded) (appointment ''A.B'')
   = Inr visit_schedule_A
   \<and> visit_schedule (get_visit_schedule site_loaded) (appointment ''A.nothing'')
   = Inr visit_schedule_A"
  using
    visit_schedule_second_segment_unused[of
      "appointment ''A''"
      "get_visit_schedule site_loaded"
      "''A''" "''B''"
      "appointment ''A''"
      "''B''"]
    visit_schedule_second_segment_unused[of
      "appointment ''A.B''"
      "get_visit_schedule site_loaded"
      "''A''" "''B''"
      "appointment ''A.nothing''"
      "''nothing''"]
  by (simp add: get_visit_schedule_def)

section \<open>What an error carries\<close>

text \<open>
  C7, as stated, at a record of class \<open>Appointment\<close> with the path \<open>A.B\<close> on a registry that
  is not loaded: the error is raised from \<open>RegistryNotLoaded\<close>, but its message names the
  visit schedule \<open>A\<close> and the registry's text only; the record type does not occur in it.
\<close>

theorem resolution_errors_counterexample:
  "schedule (get_visit_schedule site_not_loaded) get_schedule (appointment ''A.B'')
   = Inl (VisitScheduleModelError
            (''visit_schedule_name: '' @ [CHR 0x27] @ ''A'' @ [CHR 0x27] @ ''. Got not loaded'')
            (RegistryNotLoaded ''not loaded''))
   \<and> \<not> sublist ''Appointment''
         (''visit_schedule_name: '' @ [CHR 0x27] @ ''A'' @ [CHR 0x27] @ ''. Got not loaded'')"
  by (simp add: schedule_def visit_schedule_def split_names_def get_visit_schedule_def
        sublist_Cons_right prefix_code)

text \<open>
  C7, amended. Every error of parsing the path or of the registry lookup reaches the
  caller as \<open>VisitScheduleModelError\<close> raised from the original error: for a malformed path
  the message names the record's class, for \<open>RegistryNotLoaded\<close> and
  \<open>SiteVisitScheduleError\<close> it names the visit schedule name and not the class. An error of
  \<open>get_schedule\<close> reaches the caller as it was raised. No schedule is substituted: a
  schedule is returned only when the registry returned the visit schedule and the visit
  schedule returned that schedule.
\<close>

theorem resolution_errors_wrapped:
  "(length (split CHR ''.'' (meta_visit_schedule_name self)) \<noteq> 2 \<longrightarrow>
      (\<exists>m. schedule gvs gs self =
              Inl (VisitScheduleModelError (class_name self @ ''. Got '' @ m) (ValueError m))))
   \<and> (split CHR ''.'' (meta_visit_schedule_name self) = [A, B] \<and> gvs A = Inl (RegistryNotLoaded m) \<longrightarrow>
        schedule gvs gs self =
          Inl (VisitScheduleModelError
                 (''visit_schedule_name: '' @ [CHR 0x27] @ A @ [CHR 0x27] @ ''. Got '' @ m)
                 (RegistryNotLoaded m)))
   \<and> (split CHR ''.'' (meta_visit_schedule_name self) = [A, B] \<and> gvs A = Inl (SiteVisitScheduleError m) \<longrightarrow>
        schedule gvs gs self =
          Inl (VisitScheduleModelError
                 (''visit_schedule_name: '' @ [CHR 0x27] @ A @ [CHR 0x27] @ ''. Got '' @ m)
                 (SiteVisitScheduleError m)))
   \<and> (split CHR ''.'' (meta_visit_schedule_name self) = [A, B] \<and> gvs A = Inr vs \<and> gs vs B = Inl e \<longrightarrow>
        schedule gvs gs self = Inl e)
   \<and> (schedule gvs gs self = Inr s \<longrightarrow>
        (\<exists>A' B' vs'. split CHR ''.'' (meta_visit_schedule_name self) = [A', B']
                      \<and> gvs A' = Inr vs' \<and> gs vs' B' = Inr s))"
proof (cases self rule: split_names_cases)
  case malformed
  then show ?thesis
    by (auto simp: schedule_malformed split_names_malformed)
next
  case (pair a b)
  then show ?thesis
    by (auto simp: schedule_pair split: sum.splits)
qed

text \<open>
  The theorem at a malformed path, at the path \<open>A.B\<close> on a registry that is not loaded, at
  a visit schedule name that is not registered, at a schedule name the visit schedule
  does not hold, and where both are found.
\<close>

theorem resolution_errors_wrapped_witness:
  "schedule (get_visit_schedule site_loaded) get_schedule (appointment ''AB'')
   = Inl (VisitScheduleModelError ''Appointment. Got not enough values to unpack (expected 2, got 1)''
            (ValueError ''not enough values to unpack (expected 2, got 1)''))
   \<and> schedule (get_visit_schedule site_not_loaded) get_schedule (appointment ''A.B'')
   = Inl (VisitScheduleModelError
            (''visit_schedule_name: '' @ [CHR 0x27] @ ''A'' @ [CHR 0x27] @ ''. Got not loaded'')
            (RegistryNotLoaded ''not loaded''))
   \<and> schedule (get_visit_schedule site_loaded) get_schedule (appointment ''X.B'')
   = Inl (VisitScheduleModelError
            (''visit_schedule_name: '' @ [CHR 0x27] @ ''X'' @ [CHR 0x27] @ ''. Got not found'')
            (SiteVisitScheduleError ''not found''))
   \<and> schedule (get_visit_schedule site_loaded) get_schedule (appointment ''A.Y'')
   = Inl (ScheduleNotFound ''not found'')
   \<and> schedule (get_visit_schedule site_loaded) get_schedule (appointment ''A.B'')
   = Inr schedule_B"
  using
    resolution_errors_wrapped[of
      "appointment ''AB''" "get_visit_schedule site_loaded" get_schedule
      "''A''" "''B''" "''not loaded''"
      visit_schedule_A
      "ScheduleNotFound ''not found''"
      schedule_B]
    resolution_errors_wrapped[of
      "appointment ''A.B''" "get_visit_schedule site_not_loaded" get_schedule
      "''A''" "''B''" "''not loaded''"
      visit_schedule_A
      "ScheduleNotFound ''not found''"
      schedule_B]
    resolution_errors_wrapped[of
      "appointment ''X.B''" "get_visit_schedule site_loaded" get_schedule
      "''X''" "''B''" "''not found''"
      visit_schedule_A
      "ScheduleNotFound ''not found''"
      schedule_B]
    resolution_errors_wrapped[of
      "appointment ''A.Y''" "get_visit_schedule site_loaded" get_schedule
      "''A''" "''Y''" "''not found''"
      visit_schedule_A
      "ScheduleNotFound ''not found''"
      schedule_B]
    resolution_errors_wrapped[of
      "appointment ''A.B''" "get_visit_schedule site_loaded" get_schedule
      "''A''" "''B''" "''not found''"
      visit_schedule_A
      "ScheduleNotFound ''not found''"
      schedule_B]
  by (simp add: get_visit_schedule_def get_schedule_def schedule_def visit_schedule_def
        split_names_def)

section \<open>Resolving twice\<close>

text \<open>
  C8. The result of \<open>schedule\<close> depends on the path and on the registry only: two calls with
  the same path and the same registry, from records that may differ in everything else,
  return the same schedule; from records of the same class they fail alike as well.
\<close>

theorem schedule_same_path_same_result:
  assumes "meta_visit_schedule_name self' = meta_visit_schedule_name self"
  shows "(schedule gvs gs self = Inr s \<longrightarrow> schedule gvs gs self' = Inr s)
       \<and> (class_name self' = class_name self \<longrightarrow> schedule gvs gs self' = schedule gvs gs self)"
proof (cases self rule: split_names_cases)
  case malformed
  then have "length (split CHR ''.'' (meta_visit_schedule_name self')) \<noteq> 2"
    using assms by simp
  with malformed show ?thesis
    using assms by (simp add: schedule_malformed split_names_malformed)
next
  case (pair a b)
  then have "split CHR ''.'' (meta_visit_schedule_name self') = [a, b]"
    using assms by simp
  with pair show ?thesis by (simp add: schedule_pair)
qed

text \<open>
  The theorem at two records with the path \<open>A.B\<close>, of different classes and with different
  fields.
\<close>

theorem schedule_same_path_same_result_witness:
  "schedule (get_visit_schedule site_loaded) get_schedule (appointment ''A.B'')
   = Inr schedule_B
   \<and> schedule
     (get_visit_schedule site_loaded)
     get_schedule
     \<lparr>class_name = ''SubjectVisit'', meta_visit_schedule_name = ''A.B'',
      visit_schedule_name = ''X'', schedule_name = ''Y'', visit_code = Some ''1000''\<rparr>
   = Inr schedule_B"
  using
    schedule_same_path_same_result[of
      "\<lparr>class_name = ''SubjectVisit'', meta_visit_schedule_name = ''A.B'',
        visit_schedule_name = ''X'', schedule_name = ''Y'', visit_code = Some ''1000''\<rparr>"
      "appointment ''A.B''" "get_visit_schedule site_loaded" get_schedule
      schedule_B]
  by (simp add: get_visit_schedule_def get_schedule_def schedule_def visit_schedule_def
        split_names_def)

end
